theory Spec2Isabelle
  imports Complex_Main "HOL-Library.Word"
begin

unbundle bit_operations_syntax

section \<open>Python values used by the server\<close>

text \<open>
  A Python \<open>str\<close> is modelled as a HOL \<open>string\<close>; characters from \<open>0x80\<close> upwards
  stand for non-ASCII code points. The contents of a file are a list of bytes.
  Every exception the server raises or catches carries a message, which is what
  \<open>str(e)\<close> returns.
\<close>

type_synonym byte = "8 word"

datatype py_error =
    ValueError string
  | RuntimeError string
  | IndexError string
  | OverflowError string

fun str_of :: "py_error \<Rightarrow> string" where
  "str_of (ValueError m) = m"
| "str_of (RuntimeError m) = m"
| "str_of (IndexError m) = m"
| "str_of (OverflowError m) = m"

text \<open>\<open>s.startswith(p)\<close>.\<close>

fun startswith :: "string \<Rightarrow> string \<Rightarrow> bool" where
  "startswith s [] = True"
| "startswith [] (p # ps) = False"
| "startswith (c # cs) (p # ps) = (c = p \<and> startswith cs ps)"

text \<open>\<open>needle in s\<close> on strings.\<close>

fun contains :: "string \<Rightarrow> string \<Rightarrow> bool" where
  "contains [] needle = (needle = [])"
| "contains (c # cs) needle = (startswith (c # cs) needle \<or> contains cs needle)"

text \<open>
  \<open>s.split(sep, 1)\<close> for a one-character separator: a list of one string when the
  separator does not occur, otherwise the text before the first occurrence and the
  text after it.
\<close>

definition split1 :: "char \<Rightarrow> string \<Rightarrow> string list" where
  "split1 sep s =
     (case dropWhile (\<lambda>c. c \<noteq> sep) s of
        [] \<Rightarrow> [s]
      | _ # rest \<Rightarrow> [takeWhile (\<lambda>c. c \<noteq> sep) s, rest])"

text \<open>
  \<open>s.lower()\<close>. The letters \<open>A\<close> to \<open>Z\<close> are folded; every other character is
  kept (no non-ASCII code point lower-cases to an ASCII letter of the allow-list).
\<close>

definition lower_char :: "char \<Rightarrow> char" where
  "lower_char c =
     (case map_of (zip ''ABCDEFGHIJKLMNOPQRSTUVWXYZ'' ''abcdefghijklmnopqrstuvwxyz'') c of
        Some l \<Rightarrow> l
      | None \<Rightarrow> c)"

definition lower :: "string \<Rightarrow> string" where
  "lower s = map lower_char s"

section \<open>Format validator\<close>

definition supported_formats :: "string set" where
  "supported_formats = {''image/jpeg'', ''image/jpg'', ''image/png''}"

definition validate_image_format :: "string \<Rightarrow> string" where
  "validate_image_format mime_type =
     (let mime_type = lower mime_type
      in if mime_type \<notin> supported_formats then ''image/jpeg'' else mime_type)"

section \<open>Base64\<close>

text \<open>
  The standard library's \<open>base64\<close> module is modelled, not taken from the
  repository. \<open>b64encode\<close> is the encoding of RFC 4648: three bytes become four
  characters of the alphabet, and a final group of one or two bytes is filled with
  zero bits and closed with \<open>=\<close>.
\<close>

definition b64_table :: string where
  "b64_table = ''ABCDEFGHIJKLMNOPQRSTUVWXYZabcdefghijklmnopqrstuvwxyz0123456789+/''"

definition b2a_char :: "byte \<Rightarrow> char" where
  "b2a_char v = b64_table ! unat v"

fun index_of :: "'a \<Rightarrow> 'a list \<Rightarrow> nat option" where
  "index_of x [] = None"
| "index_of x (y # ys) = (if x = y then Some 0 else map_option Suc (index_of x ys))"

definition a2b_char :: "char \<Rightarrow> byte option" where
  "a2b_char c = map_option of_nat (index_of c b64_table)"

definition sextet0 :: "byte \<Rightarrow> byte" where
  "sextet0 a = drop_bit 2 a"

definition sextet1 :: "byte \<Rightarrow> byte \<Rightarrow> byte" where
  "sextet1 a b = push_bit 4 (a AND 3) OR drop_bit 4 b"

definition sextet2 :: "byte \<Rightarrow> byte \<Rightarrow> byte" where
  "sextet2 b c = push_bit 2 (b AND 15) OR drop_bit 6 c"

definition sextet3 :: "byte \<Rightarrow> byte" where
  "sextet3 c = c AND 63"

fun b64encode :: "byte list \<Rightarrow> string" where
  "b64encode [] = []"
| "b64encode [a] =
     [b2a_char (sextet0 a), b2a_char (sextet1 a 0), CHR ''='', CHR ''='']"
| "b64encode [a, b] =
     [b2a_char (sextet0 a), b2a_char (sextet1 a b), b2a_char (sextet2 b 0), CHR ''='']"
| "b64encode (a # b # c # rest) =
     [b2a_char (sextet0 a), b2a_char (sextet1 a b), b2a_char (sextet2 b c),
      b2a_char (sextet3 c)] @ b64encode rest"

text \<open>
  \<open>base64.b64decode(s, validate=True)\<close> on a \<open>str\<close>: the text must be ASCII, and is
  then decoded by the strict decoder of \<open>binascii\<close> (CPython 3.11 and later). The
  decoder reads one character at a time, keeping the position inside the current
  group of four (\<open>quad_pos\<close>), the bits left over from the previous character, the
  number of padding characters seen in the current run, and whether padding has
  started. It rejects leading padding, any character outside the alphabet, data after
  the padding, data between padding characters, and an incomplete final group.
\<close>

datatype b64_error =
  NonAscii | LeadingPadding | ExcessData | NotBase64 | DiscontinuousPadding
  | InvalidLength | IncorrectPadding

fun a2b_loop :: "nat \<Rightarrow> byte \<Rightarrow> nat \<Rightarrow> bool \<Rightarrow> byte list \<Rightarrow> string \<Rightarrow> b64_error + byte list" where
  "a2b_loop quad_pos leftchar pads padding_started bin_data [] =
     (if quad_pos \<noteq> 0
      then Inl (if quad_pos = 1 then InvalidLength else IncorrectPadding)
      else Inr bin_data)"
| "a2b_loop quad_pos leftchar pads padding_started bin_data (this_ch # rest) =
     (if this_ch = CHR ''='' then
        (if 2 \<le> quad_pos \<and> 4 \<le> quad_pos + (pads + 1)
         then (if rest \<noteq> [] then Inl ExcessData else Inr bin_data)
         else a2b_loop quad_pos leftchar (if 2 \<le> quad_pos then pads + 1 else pads) True
                bin_data rest)
      else case a2b_char this_ch of
        None \<Rightarrow> Inl NotBase64
      | Some v \<Rightarrow>
          if padding_started then Inl DiscontinuousPadding
          else if quad_pos = 0 then a2b_loop 1 v 0 padding_started bin_data rest
          else if quad_pos = 1 then
            a2b_loop 2 (v AND 15) 0 padding_started
              (bin_data @ [push_bit 2 leftchar OR drop_bit 4 v]) rest
          else if quad_pos = 2 then
            a2b_loop 3 (v AND 3) 0 padding_started
              (bin_data @ [push_bit 4 leftchar OR drop_bit 2 v]) rest
          else
            a2b_loop 0 0 0 padding_started (bin_data @ [push_bit 6 leftchar OR v]) rest)"

definition a2b_base64_strict :: "string \<Rightarrow> b64_error + byte list" where
  "a2b_base64_strict s =
     (if s \<noteq> [] \<and> hd s = CHR ''='' then Inl LeadingPadding
      else a2b_loop 0 0 0 False [] s)"

definition b64decode_validate :: "string \<Rightarrow> b64_error + byte list" where
  "b64decode_validate s =
     (if list_ex (\<lambda>c. 128 \<le> (of_char c :: nat)) s then Inl NonAscii
      else a2b_base64_strict s)"

text \<open>The server's own check: pad to a multiple of four, then try to decode.\<close>

definition is_valid_base64 :: "string \<Rightarrow> bool" where
  "is_valid_base64 base64_string =
     (let padding_needed = length base64_string mod 4;
          base64_string =
            (if padding_needed \<noteq> 0
             then base64_string @ replicate (4 - padding_needed) (CHR ''='')
             else base64_string)
      in case b64decode_validate base64_string of
           Inr decoded \<Rightarrow> True
         | Inl e \<Rightarrow> False)"

text \<open>\<open>s.rstrip("=")\<close>: the text without its trailing padding.\<close>

definition rstrip_pad :: "string \<Rightarrow> string" where
  "rstrip_pad s = rev (dropWhile (\<lambda>c. c = CHR ''='') (rev s))"

section \<open>Image normalizer\<close>

text \<open>
  The file system as the normalizer sees it: a path either does not exist, or names
  a file whose bytes can be read, or one that may not be read, or something whose
  reading fails for another reason (a directory, an I/O error) with that error's text.
\<close>

datatype fs_entry =
    Readable "byte list"
  | PermissionDenied
  | Unreadable string

type_synonym filesystem = "string \<rightharpoonup> fs_entry"

text \<open>
  \<open>mimetypes.guess_type(path)[0]\<close> belongs to the standard library and is a
  parameter of the model. On some paths the library raises (for \<open>//[x/a.png\<close> it
  raises \<open>ValueError\<close> with the text \<open>Invalid IPv6 URL\<close>): the parameter gives
  either the text of the exception raised (\<open>Inl\<close>) or the guessed type, if any.
  \<open>guess_type_sample\<close> holds a few rows of the library's behaviour, for evaluating
  examples.
\<close>

fun endswith :: "string \<Rightarrow> string \<Rightarrow> bool" where
  "endswith s suffix = startswith (rev s) (rev suffix)"

definition guess_type_sample :: "string \<Rightarrow> string + string option" where
  "guess_type_sample path =
     (if path = ''//[x/a.png'' then Inl ''Invalid IPv6 URL''
      else if endswith path ''.jpg'' \<or> endswith path ''.jpeg'' then Inr (Some ''image/jpeg'')
      else if endswith path ''.png'' then Inr (Some ''image/png'')
      else if endswith path ''.gif'' then Inr (Some ''image/gif'')
      else if endswith path ''.txt'' then Inr (Some ''text/plain'')
      else Inr None)"

text \<open>
  The guess is made inside the \<open>try\<close>, before the file is opened; an exception
  from it is neither \<open>FileNotFoundError\<close> nor \<open>PermissionError\<close> and is turned
  into \<open>ValueError\<close> by the last handler.
\<close>

definition encode_file_to_base64 ::
  "(string \<Rightarrow> string + string option) \<Rightarrow> filesystem \<Rightarrow> string
    \<Rightarrow> py_error + (string \<times> string)" where
  "encode_file_to_base64 guess_type fs file_path =
     (case guess_type file_path of
        Inl e \<Rightarrow> Inl (ValueError (''Failed to encode file '' @ file_path @ '': '' @ e))
      | Inr guessed \<Rightarrow>
          (let mime_type =
                 (case guessed of
                    None \<Rightarrow> ''image/jpeg''
                  | Some t \<Rightarrow>
                      if t = [] \<or> \<not> startswith t ''image/'' then ''image/jpeg'' else t)
           in case fs file_path of
                Some (Readable content) \<Rightarrow> Inr (b64encode content, mime_type)
              | None \<Rightarrow> Inl (ValueError (''File not found: '' @ file_path))
              | Some PermissionDenied \<Rightarrow>
                  Inl (ValueError (''Permission denied when reading file: '' @ file_path))
              | Some (Unreadable e) \<Rightarrow>
                  Inl (ValueError (''Failed to encode file '' @ file_path @ '': '' @ e))))"

text \<open>\<open>xs[i]\<close> for a non-negative index: out of range raises \<open>IndexError\<close>.\<close>

definition py_index :: "'a list \<Rightarrow> nat \<Rightarrow> py_error + 'a" where
  "py_index xs i =
     (if i < length xs then Inr (xs ! i) else Inl (IndexError ''list index out of range''))"

text \<open>
  The body of the \<open>try\<close> in \<open>prepare_image_for_api\<close>: unpacking the split into
  two names raises \<open>ValueError\<close> unless it has exactly two parts.
\<close>

definition parse_data_url :: "string \<Rightarrow> py_error + (string \<times> string)" where
  "parse_data_url image_input =
     (case split1 (CHR '','') image_input of
        [header, data] \<Rightarrow>
          (case py_index (split1 (CHR '';'') header) 0 of
             Inl e \<Rightarrow> Inl e
           | Inr before_semicolon \<Rightarrow>
               (case py_index (split1 (CHR '':'') before_semicolon) 1 of
                  Inl e \<Rightarrow> Inl e
                | Inr mime_type \<Rightarrow> Inr (data, mime_type)))
      | _ \<Rightarrow> Inl (ValueError ''not enough values to unpack (expected 2, got 1)''))"

text \<open>The \<open>except (IndexError, ValueError)\<close> handler: it splits the input again.\<close>

definition data_url_fallback :: "string \<Rightarrow> py_error + (string \<times> string)" where
  "data_url_fallback image_input =
     (case py_index (split1 (CHR '','') image_input) 1 of
        Inl e \<Rightarrow> Inl e
      | Inr data \<Rightarrow> Inr (data, ''image/jpeg''))"

definition prepare_image_for_api ::
  "(string \<Rightarrow> string + string option) \<Rightarrow> filesystem \<Rightarrow> string
    \<Rightarrow> py_error + (string \<times> string)" where
  "prepare_image_for_api guess_type fs image_input =
     (if fs image_input \<noteq> None then encode_file_to_base64 guess_type fs image_input
      else if startswith image_input ''data:image'' then
        (case parse_data_url image_input of
           Inr r \<Rightarrow> Inr r
         | Inl (IndexError m) \<Rightarrow> data_url_fallback image_input
         | Inl (ValueError m) \<Rightarrow> data_url_fallback image_input
         | Inl e \<Rightarrow> Inl e)
      else Inr (image_input, ''image/jpeg''))"

section \<open>Configuration\<close>

text \<open>
  Lines 31 to 34 of \<open>server.py\<close> are module-level assignments: they run once, when
  the module is loaded, and read \<open>os.getenv\<close> then. A process is its environment
  (\<open>os.environ\<close>) together with the values the loaded module holds; the functions
  of the module read those values and never the environment.
\<close>

type_synonym environ = "string \<rightharpoonup> string"

record config =
  GLM_API_BASE :: string
  GLM_API_KEY :: "string option"
  GLM_MODEL_NAME :: string

definition getenv_default :: "environ \<Rightarrow> string \<Rightarrow> string \<Rightarrow> string" where
  "getenv_default env name dflt = (case env name of None \<Rightarrow> dflt | Some v \<Rightarrow> v)"

definition load_config :: "environ \<Rightarrow> config" where
  "load_config env =
     \<lparr>GLM_API_BASE = getenv_default env ''GLM_API_BASE'' ''https://nano-gpt.com/api/v1'',
      GLM_API_KEY = env ''GLM_API_KEY'',
      GLM_MODEL_NAME = getenv_default env ''GLM_MODEL_NAME'' ''zai-org/GLM-4.5V-FP8''\<rparr>"

record process =
  environ :: environ
  server_module :: config

definition import_server :: "environ \<Rightarrow> process" where
  "import_server env = \<lparr>environ = env, server_module = load_config env\<rparr>"

text \<open>\<open>os.environ[name] = v\<close> and \<open>del os.environ[name]\<close>.\<close>

definition setenv :: "string \<Rightarrow> string \<Rightarrow> process \<Rightarrow> process" where
  "setenv name v p = p\<lparr>environ := (environ p)(name \<mapsto> v)\<rparr>"

definition delenv :: "string \<Rightarrow> process \<Rightarrow> process" where
  "delenv name p = p\<lparr>environ := (environ p)(name := None)\<rparr>"

section \<open>Vision API client\<close>

text \<open>\<open>str(n)\<close> for an integer, as the f-strings print the status code.\<close>

fun show_nat :: "nat \<Rightarrow> string" where
  "show_nat n =
     (if n < 10 then [''0123456789'' ! n]
      else show_nat (n div 10) @ [''0123456789'' ! (n mod 10)])"

definition show_int :: "int \<Rightarrow> string" where
  "show_int i = (if i < 0 then ''-'' @ show_nat (nat (- i)) else show_nat (nat i))"

text \<open>
  A Python \<open>float\<close>: \<open>Finite r\<close> stands for the double whose value is \<open>r\<close>, beside
  the two infinities and not-a-number. The delay of the backoff is
  \<open>retry_delay * (2 ** attempt)\<close>, a float times an integer power of two. The
  integer is converted to a float first, which raises \<open>OverflowError\<close> from
  \<open>2 ** 1024\<close> on. The product of a double and a power of two is exact unless it
  leaves the range of the doubles, and then it is an infinity.
\<close>

datatype pyfloat = Finite real | PosInf | NegInf | NaN

definition times_pow2 :: "pyfloat \<Rightarrow> nat \<Rightarrow> pyfloat" where
  "times_pow2 x k =
     (case x of
        Finite r \<Rightarrow>
          if 2 ^ 1024 \<le> r * 2 ^ k then PosInf
          else if r * 2 ^ k \<le> - (2 ^ 1024) then NegInf
          else Finite (r * 2 ^ k)
      | PosInf \<Rightarrow> PosInf
      | NegInf \<Rightarrow> NegInf
      | NaN \<Rightarrow> NaN)"

definition backoff_delay :: "pyfloat \<Rightarrow> nat \<Rightarrow> py_error + pyfloat" where
  "backoff_delay retry_delay attempt =
     (if 1024 \<le> attempt then Inl (OverflowError ''int too large to convert to float'')
      else Inr (times_pow2 retry_delay attempt))"

text \<open>\<open>x < y\<close> on floats.\<close>

fun float_less :: "pyfloat \<Rightarrow> pyfloat \<Rightarrow> bool" where
  "float_less (Finite a) (Finite b) = (a < b)"
| "float_less (Finite a) PosInf = True"
| "float_less NegInf (Finite b) = True"
| "float_less NegInf PosInf = True"
| "float_less x y = False"

text \<open>
  One request, as it is posted: the URL, the two headers and the fields of the JSON
  payload (the single user message holds the prompt and the image as a data URL).
\<close>

record request =
  url :: string
  authorization :: string
  content_type :: string
  model :: string
  text_part :: string
  image_url :: string
  max_tokens :: int
  temperature :: real

text \<open>
  What one attempt can come to. \<open>Ok\<close> is a successful status whose body holds a
  string at \<open>choices[0].message.content\<close>; a successful status with a body that
  cannot be read that way raises inside the \<open>try\<close> and falls under
  \<open>OtherException\<close>, which carries \<open>str(e)\<close> and the formatted traceback. For an
  error status, the body is a JSON object with an error message, one without
  (printed as \<open>Unknown\<close>), or something \<open>json()\<close> or \<open>get\<close> fail on, in which case
  the raw text is used.
\<close>

datatype error_body =
    JsonMessage string
  | JsonNoMessage
  | NotJson string

datatype http_outcome =
    Ok string
  | HTTPStatusError int error_body
  | TimeoutException string
  | NetworkError string
  | OtherException string string

text \<open>
  What a call does besides returning, in the order in which it does it: it posts a
  request, or it calls \<open>asyncio.sleep\<close> with a delay. The sleep is recorded with the
  value it is called with; how long the event loop then waits is not part of the
  model.
\<close>

datatype event = Post request | Sleep pyfloat

type_synonym trace = "event list"

definition no_trace :: trace where
  "no_trace = []"

fun requests :: "trace \<Rightarrow> request list" where
  "requests [] = []"
| "requests (Post r # tr) = r # requests tr"
| "requests (Sleep d # tr) = requests tr"

fun sleeps :: "trace \<Rightarrow> pyfloat list" where
  "sleeps [] = []"
| "sleeps (Post r # tr) = sleeps tr"
| "sleeps (Sleep d # tr) = d # sleeps tr"

definition status_error_msg :: "int \<Rightarrow> error_body \<Rightarrow> string" where
  "status_error_msg status_code body =
     ''GLM API error: '' @ show_int status_code @
     (case body of
        JsonMessage m \<Rightarrow> '' - '' @ m @ '' error''
      | JsonNoMessage \<Rightarrow> '' - Unknown error''
      | NotJson t \<Rightarrow> '' - '' @ t)"

text \<open>The two statements after the loop.\<close>

definition raise_last_error :: "py_error option \<Rightarrow> py_error + string" where
  "raise_last_error last_error =
     (case last_error of
        Some e \<Rightarrow> Inl e
      | None \<Rightarrow> Inl (RuntimeError ''Failed to call GLM API after maximum retries''))"

text \<open>
  The \<open>try\<close> statement of one attempt, by its branches: the attempt returns the
  content, or an error is captured in \<open>last_error\<close> and the loop is left
  (\<open>break\<close>), or an error is captured and control goes on to the sleep.
\<close>

datatype attempt_result = Return string | Break py_error | Continue py_error

fun run_attempt :: "http_outcome \<Rightarrow> attempt_result" where
  "run_attempt (Ok content) = Return content"
| "run_attempt (HTTPStatusError status_code body) =
     (let last_error = RuntimeError (status_error_msg status_code body)
      in if status_code \<in> {401, 403, 429} then Break last_error else Continue last_error)"
| "run_attempt (TimeoutException e) = Continue (RuntimeError (''GLM API timeout: '' @ e))"
| "run_attempt (NetworkError e) =
     Continue (RuntimeError (''GLM API network error: '' @ e))"
| "run_attempt (OtherException e tb) =
     Continue (RuntimeError (''Failed to call GLM API: '' @ e @ ''            Traceback: '' @ tb))"

text \<open>
  The \<open>for\<close> loop over the attempts still to make. \<open>post k\<close> is what the transport
  answers to the attempt with index \<open>k\<close>. The sleep at the end of the body stands
  outside the \<open>try\<close>: an \<open>OverflowError\<close> from computing the delay leaves the
  function.
\<close>

fun retry_loop ::
  "(nat \<Rightarrow> http_outcome) \<Rightarrow> request \<Rightarrow> int \<Rightarrow> pyfloat \<Rightarrow> nat list \<Rightarrow> py_error option \<Rightarrow> trace
    \<Rightarrow> (py_error + string) \<times> trace" where
  "retry_loop post req max_retries retry_delay [] last_error tr =
     (raise_last_error last_error, tr)"
| "retry_loop post req max_retries retry_delay (attempt # rest) last_error tr =
     (let tr = tr @ [Post req]
      in case run_attempt (post attempt) of
           Return content \<Rightarrow> (Inr content, tr)
         | Break e \<Rightarrow> (raise_last_error (Some e), tr)
         | Continue e \<Rightarrow>
             if int attempt < max_retries - 1 then
               (case backoff_delay retry_delay attempt of
                  Inl overflow \<Rightarrow> (Inl overflow, tr)
                | Inr delay \<Rightarrow>
                    retry_loop post req max_retries retry_delay rest (Some e)
                      (tr @ [Sleep delay]))
             else retry_loop post req max_retries retry_delay rest (Some e) tr)"

definition build_request :: "config \<Rightarrow> string \<Rightarrow> string \<Rightarrow> string \<Rightarrow> int \<Rightarrow> request" where
  "build_request cfg image_base64 prompt mime_type max_tok =
     \<lparr>url = GLM_API_BASE cfg @ ''/chat/completions'',
      authorization = ''Bearer '' @ (case GLM_API_KEY cfg of Some k \<Rightarrow> k | None \<Rightarrow> ''None''),
      content_type = ''application/json'',
      model = GLM_MODEL_NAME cfg,
      text_part = prompt,
      image_url = ''data:'' @ mime_type @ '';base64,'' @ image_base64,
      max_tokens = max_tok,
      temperature = 7 / 10\<rparr>"

definition call_glm_vision_api ::
  "config \<Rightarrow> (nat \<Rightarrow> http_outcome) \<Rightarrow> string \<Rightarrow> string \<Rightarrow> string \<Rightarrow> int \<Rightarrow> int \<Rightarrow> pyfloat
    \<Rightarrow> (py_error + string) \<times> trace" where
  "call_glm_vision_api cfg post image_base64 prompt mime_type max_tok max_retries retry_delay =
     (if GLM_API_KEY cfg = None \<or> GLM_API_KEY cfg = Some []
      then (Inl (ValueError ''GLM_API_KEY environment variable not set''), no_trace)
      else if GLM_API_BASE cfg = []
      then (Inl (ValueError ''GLM_API_BASE environment variable not set''), no_trace)
      else if \<not> is_valid_base64 image_base64
      then (Inl (ValueError ''Invalid base64 image data''), no_trace)
      else
        (let mime_type = validate_image_format mime_type;
             req = build_request cfg image_base64 prompt mime_type max_tok
         in retry_loop post req max_retries retry_delay [0..<nat max_retries] None no_trace))"

text \<open>A call made in a process reads the names of its loaded module.\<close>

definition call_in_process ::
  "process \<Rightarrow> (nat \<Rightarrow> http_outcome) \<Rightarrow> string \<Rightarrow> string \<Rightarrow> string \<Rightarrow> int \<Rightarrow> int \<Rightarrow> pyfloat
    \<Rightarrow> (py_error + string) \<times> trace" where
  "call_in_process p = call_glm_vision_api (server_module p)"

section \<open>Analysis orchestrator\<close>

definition enhanced_prompt :: "string \<Rightarrow> string" where
  "enhanced_prompt user_context =
     ''\<newline>You are a comprehensive visual analysis assistant. The user has provided\<newline>        an image and specific context about what they need.\<newline>\<newline>USER CONTEXT: ''
     @ user_context @
     ''\<newline>\<newline>Based on this context, provide the most appropriate analysis which may include:\<newline>- Detailed description of visual elements\<newline>- Text extraction and transcription (if text is present)\<newline>- Diagram/technical analysis (if it's a diagram, chart, or technical drawing)\<newline>- Summary of key information\<newline>- Identification of issues, patterns, or insights\<newline>- Step-by-step explanations when appropriate\<newline>\<newline>Adapt your response style and focus based on what the user is asking for.\<newline>Be thorough but concise.\<newline>''"

text \<open>
  The optional sink (\<open>ctx\<close>) has two operations, \<open>info\<close> and \<open>error\<close>. Each is
  awaited with a message and either comes back or raises; \<open>None\<close> is coming back,
  \<open>Some e\<close> is raising \<open>e\<close>. The notifications that came back are part of the result.
\<close>

record sink =
  info :: "string \<Rightarrow> py_error option"
  error :: "string \<Rightarrow> py_error option"

datatype notification = Info string | Error string

text \<open>\<open>if ctx: await ctx.info(m)\<close> and \<open>if ctx: await ctx.error(m)\<close>.\<close>

definition send ::
  "sink option \<Rightarrow> notification \<Rightarrow> notification list \<Rightarrow> py_error + notification list" where
  "send ctx n sent =
     (case ctx of
        None \<Rightarrow> Inr sent
      | Some s \<Rightarrow>
          (case (case n of Info m \<Rightarrow> info s m | Error m \<Rightarrow> error s m) of
             None \<Rightarrow> Inr (sent @ [n])
           | Some e \<Rightarrow> Inl e))"

text \<open>
  The \<open>except Exception\<close> handler of the tool. The notification of the error is
  awaited inside the handler: when it raises, the exception leaves the tool.
\<close>

definition analysis_failed ::
  "sink option \<Rightarrow> py_error \<Rightarrow> notification list \<Rightarrow> trace
    \<Rightarrow> (py_error + string) \<times> notification list \<times> trace" where
  "analysis_failed ctx e sent tr =
     (let error_msg = ''Image analysis failed: '' @ str_of e
      in case send ctx (Error error_msg) sent of
           Inl raised \<Rightarrow> (Inl raised, sent, tr)
         | Inr sent \<Rightarrow> (Inr error_msg, sent, tr))"

text \<open>
  The tool. Both \<open>info\<close> notifications are awaited inside the \<open>try\<close>, the second
  one after the client has returned.
\<close>

definition analyze_image_with_context ::
  "config \<Rightarrow> (string \<Rightarrow> string + string option) \<Rightarrow> filesystem \<Rightarrow> (nat \<Rightarrow> http_outcome)
    \<Rightarrow> string \<Rightarrow> string \<Rightarrow> int \<Rightarrow> sink option
    \<Rightarrow> (py_error + string) \<times> notification list \<times> trace" where
  "analyze_image_with_context cfg guess_type fs post image_data user_context max_tok ctx =
     (case send ctx (Info ''Starting image analysis with context...'') [] of
        Inl e \<Rightarrow> analysis_failed ctx e [] no_trace
      | Inr sent \<Rightarrow>
          (case prepare_image_for_api guess_type fs image_data of
             Inl e \<Rightarrow> analysis_failed ctx e sent no_trace
           | Inr (image_base64, mime_type) \<Rightarrow>
               (case call_glm_vision_api cfg post image_base64 (enhanced_prompt user_context)
                       mime_type max_tok 5 (Finite 2) of
                  (Inl e, tr) \<Rightarrow> analysis_failed ctx e sent tr
                | (Inr result, tr) \<Rightarrow>
                    (case send ctx (Info ''Image analysis completed successfully'') sent of
                       Inl e \<Rightarrow> analysis_failed ctx e sent tr
                     | Inr sent \<Rightarrow> (Inr result, sent, tr)))))"

section \<open>Notions used to state the properties\<close>

text \<open>
  The failures after which the loop goes on (every failure except the three blocked
  status codes), and the message of the error each failure is captured as.
\<close>

fun retryable :: "http_outcome \<Rightarrow> bool" where
  "retryable (Ok content) = False"
| "retryable (HTTPStatusError status_code body) = (status_code \<notin> {401, 403, 429})"
| "retryable (TimeoutException e) = True"
| "retryable (NetworkError e) = True"
| "retryable (OtherException e tb) = True"

fun failure_msg :: "http_outcome \<Rightarrow> string" where
  "failure_msg (Ok content) = []"
| "failure_msg (HTTPStatusError status_code body) = status_error_msg status_code body"
| "failure_msg (TimeoutException e) = ''GLM API timeout: '' @ e"
| "failure_msg (NetworkError e) = ''GLM API network error: '' @ e"
| "failure_msg (OtherException e tb) =
     ''Failed to call GLM API: '' @ e @ ''            Traceback: '' @ tb"

text \<open>
  The trace of \<open>n\<close> failing attempts with a sleep after each but the last: a request,
  then, for every further attempt, the sleep that precedes it and its request.
\<close>

definition backoff_trace :: "request \<Rightarrow> pyfloat \<Rightarrow> nat \<Rightarrow> trace" where
  "backoff_trace req retry_delay n =
     concat (map (\<lambda>attempt. [Post req, Sleep (times_pow2 retry_delay attempt)]) [0..<n - 1])
     @ [Post req]"

section \<open>Sample inputs\<close>

text \<open>
  Concrete configurations, transports, files and sinks on which the properties below
  are evaluated.
\<close>

definition cfg_sample :: config where
  "cfg_sample = \<lparr>GLM_API_BASE = ''https://nano-gpt.com/api/v1'', GLM_API_KEY = Some ''test-api-key'',
     GLM_MODEL_NAME = ''glm-4.5v''\<rparr>"

definition always_500 :: "nat \<Rightarrow> http_outcome" where
  "always_500 attempt = HTTPStatusError 500 (JsonMessage ''Internal server'')"

definition always_timeout :: "nat \<Rightarrow> http_outcome" where
  "always_timeout attempt = TimeoutException ''timed out''"

definition always_401 :: "nat \<Rightarrow> http_outcome" where
  "always_401 attempt = HTTPStatusError 401 (NotJson ''Unauthorized'')"

definition always_ok :: "nat \<Rightarrow> http_outcome" where
  "always_ok attempt = Ok ''This is a test analysis response''"

definition cfg_empty_base :: config where
  "cfg_empty_base = load_config [''GLM_API_BASE'' \<mapsto> [], ''GLM_API_KEY'' \<mapsto> ''test-api-key'']"

definition process_sample :: process where
  "process_sample = import_server [''GLM_API_KEY'' \<mapsto> ''old-key'']"

definition fs_sample :: filesystem where
  "fs_sample = [''photo.gif'' \<mapsto> Readable [1, 2, 3], ''//[x/a.png'' \<mapsto> Readable [1, 2, 3]]"

definition sink_error_fails :: sink where
  "sink_error_fails =
     \<lparr>info = (\<lambda>m. None), error = (\<lambda>m. Some (RuntimeError ''sink down''))\<rparr>"

definition sink_completed_fails :: sink where
  "sink_completed_fails =
     \<lparr>info = (\<lambda>m. if m = ''Image analysis completed successfully''
                    then Some (RuntimeError ''sink down'') else None),
      error = (\<lambda>m. None)\<rparr>"

section \<open>Properties of the format validator\<close>

lemma lower_supported: "m \<in> supported_formats \<Longrightarrow> lower m = m"
  by (auto simp: supported_formats_def lower_def lower_char_def)

lemma validate_image_format_supported: "validate_image_format m \<in> supported_formats"
  by (simp add: validate_image_format_def Let_def supported_formats_def)

text \<open>
  Claim C8. \<open>validate_image_format\<close> is a total function from strings to strings
  (it has no failing branch); applying it twice is the same as applying it once;
  an input whose lower-cased form is not in the allow-list is mapped to
  \<open>image/jpeg\<close>; an input whose lower-cased form is in the allow-list is mapped to
  that lower-cased form.
\<close>

theorem validate_image_format_normalizes:
  "validate_image_format (validate_image_format m) = validate_image_format m
   \<and> (lower m \<notin> supported_formats \<longrightarrow> validate_image_format m = ''image/jpeg'')
   \<and> (lower m \<in> supported_formats \<longrightarrow> validate_image_format m = lower m)"
proof -
  have "validate_image_format m \<in> supported_formats"
    by (rule validate_image_format_supported)
  then have "lower (validate_image_format m) = validate_image_format m"
    by (rule lower_supported)
  then show ?thesis
    by (simp add: validate_image_format_def Let_def)
qed

theorem validate_image_format_normalizes_witness:
  "validate_image_format (validate_image_format ''IMAGE/PNG'') = validate_image_format ''IMAGE/PNG''
   \<and> lower ''IMAGE/PNG'' \<in> supported_formats
   \<and> validate_image_format ''IMAGE/PNG'' = ''image/png''
   \<and> lower ''image/GIF'' \<notin> supported_formats
   \<and> validate_image_format ''image/GIF'' = ''image/jpeg''"
proof -
  have png: "lower ''IMAGE/PNG'' = ''image/png''"
    by (simp add: lower_def lower_char_def)
  have gif: "lower ''image/GIF'' \<notin> supported_formats"
    by (simp add: lower_def lower_char_def supported_formats_def)
  have "''image/png'' \<in> supported_formats"
    by (simp add: supported_formats_def)
  with png gif show ?thesis
    using validate_image_format_normalizes [of "''IMAGE/PNG''"]
      validate_image_format_normalizes [of "''image/GIF''"]
    by metis
qed

section \<open>Properties of the base64 check\<close>

lemma distinct_b64_table: "distinct b64_table"
  by (simp add: b64_table_def)

lemma length_b64_table: "length b64_table = 64"
  by (simp add: b64_table_def)

lemma index_of_nth: "distinct xs \<Longrightarrow> i < length xs \<Longrightarrow> index_of (xs ! i) xs = Some i"
proof (induction xs arbitrary: i)
  case Nil
  then show ?case by simp
next
  case (Cons x xs)
  then show ?case by (cases i) auto
qed

lemma index_of_None: "index_of x xs = None \<longleftrightarrow> x \<notin> set xs"
  by (induction xs) auto

lemma a2b_b2a: "v < 64 \<Longrightarrow> a2b_char (b2a_char v) = Some v"
proof -
  assume "v < 64"
  then have "unat v < 64" by (simp add: word_less_nat_alt)
  then show ?thesis
    by (simp add: a2b_char_def b2a_char_def index_of_nth distinct_b64_table length_b64_table)
qed

lemma b2a_not_pad: "v < 64 \<Longrightarrow> b2a_char v \<noteq> CHR ''=''"
proof -
  assume "v < 64"
  then have "unat v < length b64_table" by (simp add: word_less_nat_alt length_b64_table)
  then have "b2a_char v \<in> set b64_table" by (simp add: b2a_char_def)
  then show ?thesis by (auto simp: b64_table_def)
qed

lemma masks: "(3::byte) = mask 2" "(15::byte) = mask 4" "(63::byte) = mask 6"
  by (simp_all add: mask_eq_exp_minus_1)

lemma lt64: "(w :: byte) < 64 \<longleftrightarrow> drop_bit 6 w = 0"
proof -
  have "drop_bit 6 w = 0 \<longleftrightarrow> unat (drop_bit 6 w) = 0"
    by (simp add: unat_eq_0)
  also have "\<dots> \<longleftrightarrow> unat w div 64 = 0"
    by (simp add: drop_bit_eq_div unat_div)
  also have "\<dots> \<longleftrightarrow> unat w < 64"
    by arith
  also have "\<dots> \<longleftrightarrow> w < 64"
    by (simp add: word_less_nat_alt)
  finally show ?thesis by simp
qed

lemma byte_joins:
  fixes a b c :: byte
  shows "push_bit 2 (sextet0 a) OR drop_bit 4 (sextet1 a b) = a"
    "push_bit 4 (sextet1 a b AND 15) OR drop_bit 2 (sextet2 b c) = b"
    "push_bit 6 (sextet2 b c AND 3) OR sextet3 c = c"
  unfolding masks sextet0_def sextet1_def sextet2_def sextet3_def
  by (rule bit_word_eqI; auto simp add: bit_simps split: nat_diff_split nat_diff_split_asm)+

lemma byte_joins_nf:
  fixes a b c :: byte
  shows "push_bit 4 (sextet1 a b) AND 240 OR drop_bit 2 (sextet2 b c) = b"
    "push_bit 6 (sextet2 b c) AND 192 OR sextet3 c = c"
  using byte_joins(2) [of a b c] byte_joins(3) [of b c] by simp_all

lemma sextet_bounds:
  fixes a b c :: byte
  shows "sextet0 a < 64" "sextet1 a b < 64" "sextet2 b c < 64" "sextet3 c < 64"
  unfolding lt64 masks sextet0_def sextet1_def sextet2_def sextet3_def
  by (rule bit_word_eqI; auto simp add: bit_simps split: nat_diff_split nat_diff_split_asm)+

lemmas sextet_simps = a2b_b2a b2a_not_pad sextet_bounds byte_joins byte_joins_nf

lemma a2b_loop_b64encode: "a2b_loop 0 0 0 False acc (b64encode bs) = Inr (acc @ bs)"
proof (induction bs arbitrary: acc rule: b64encode.induct)
  case 1
  show ?case by simp
next
  case (2 a)
  show ?case by (simp add: sextet_simps)
next
  case (3 a b)
  show ?case by (simp add: sextet_simps)
next
  case (4 a b c rest)
  show ?case by (simp add: sextet_simps "4.IH")
qed

lemma b2a_in_table: "v < 64 \<Longrightarrow> b2a_char v \<in> set b64_table"
  by (simp add: b2a_char_def word_less_nat_alt length_b64_table)

lemma table_ascii: "c \<in> set b64_table \<Longrightarrow> (of_char c :: nat) < 128"
  by (auto simp: b64_table_def)

lemma set_b64encode: "set (b64encode bs) \<subseteq> insert (CHR ''='') (set b64_table)"
  by (induction bs rule: b64encode.induct) (auto simp: b2a_in_table sextet_bounds)

lemma hd_b64encode: "b64encode bs \<noteq> [] \<Longrightarrow> hd (b64encode bs) \<noteq> CHR ''=''"
  by (cases bs rule: b64encode.cases) (simp_all add: sextet_simps)

lemma b64encode_ascii: "\<not> list_ex (\<lambda>c. 128 \<le> (of_char c :: nat)) (b64encode bs)"
proof -
  have "(of_char c :: nat) < 128" if "c \<in> set (b64encode bs)" for c
    using that set_b64encode [of bs] table_ascii [of c] by auto
  then show ?thesis by (fastforce simp: list_ex_iff)
qed

lemma b64decode_b64encode: "b64decode_validate (b64encode bs) = Inr bs"
  using a2b_loop_b64encode [of "[]" bs] hd_b64encode [of bs]
  by (auto simp: b64decode_validate_def a2b_base64_strict_def b64encode_ascii)

lemma length_b64encode: "length (b64encode bs) mod 4 = 0"
  by (induction bs rule: b64encode.induct) simp_all

lemma is_valid_b64encode: "is_valid_base64 (b64encode bs)"
  by (simp add: is_valid_base64_def length_b64encode b64decode_b64encode)

lemma b64encode_shape:
  "\<exists>body k. b64encode bs = body @ replicate k (CHR ''='')
     \<and> (body = [] \<or> last body \<noteq> CHR ''='') \<and> k \<le> 2"
proof (induction bs rule: b64encode.induct)
  case 1
  show ?case by simp
next
  case (2 a)
  have "b64encode [a] = [b2a_char (sextet0 a), b2a_char (sextet1 a 0)] @ replicate 2 (CHR ''='')"
    by (simp add: numeral_2_eq_2)
  moreover have "last [b2a_char (sextet0 a), b2a_char (sextet1 a 0)] \<noteq> CHR ''=''"
    by (simp add: sextet_simps)
  ultimately show ?case by (metis order_refl)
next
  case (3 a b)
  have "b64encode [a, b]
      = [b2a_char (sextet0 a), b2a_char (sextet1 a b), b2a_char (sextet2 b 0)]
        @ replicate 1 (CHR ''='')"
    by simp
  moreover have "last [b2a_char (sextet0 a), b2a_char (sextet1 a b), b2a_char (sextet2 b 0)]
      \<noteq> CHR ''=''"
    by (simp add: sextet_simps)
  ultimately show ?case by (metis one_le_numeral)
next
  case (4 a b c rest)
  then obtain body k where rest: "b64encode rest = body @ replicate k (CHR ''='')"
    and body: "body = [] \<or> last body \<noteq> CHR ''=''" and k: "k \<le> 2"
    by blast
  let ?quad = "[b2a_char (sextet0 a), b2a_char (sextet1 a b), b2a_char (sextet2 b c),
      b2a_char (sextet3 c)]"
  have "b64encode (a # b # c # rest) = (?quad @ body) @ replicate k (CHR ''='')"
    by (simp add: rest)
  moreover have "last (?quad @ body) \<noteq> CHR ''=''"
    using body by (cases "body = []") (simp_all add: sextet_simps)
  ultimately show ?case using k by blast
qed

lemma rstrip_pad_append:
  "body = [] \<or> last body \<noteq> CHR ''='' \<Longrightarrow> rstrip_pad (body @ replicate k (CHR ''='')) = body"
proof -
  assume body: "body = [] \<or> last body \<noteq> CHR ''=''"
  have "dropWhile (\<lambda>c. c = CHR ''='') (rev body) = rev body"
    using body by (cases "rev body") (auto simp: last_rev [symmetric] simp del: last_rev)
  then show ?thesis
    by (simp add: rstrip_pad_def dropWhile_append)
qed

lemma repad:
  assumes "(n + k) mod 4 = 0" "k \<le> (2::nat)"
  shows "(if n mod 4 \<noteq> 0 then 4 - n mod 4 else 0) = k"
  using assms by presburger

lemma is_valid_rstrip_b64encode: "is_valid_base64 (rstrip_pad (b64encode bs))"
proof -
  obtain body k where enc: "b64encode bs = body @ replicate k (CHR ''='')"
    and body: "body = [] \<or> last body \<noteq> CHR ''=''" and k: "k \<le> 2"
    using b64encode_shape by blast
  have "(length body + k) mod 4 = 0"
    using length_b64encode [of bs] by (simp add: enc)
  then have pad: "(if length body mod 4 \<noteq> 0 then 4 - length body mod 4 else 0) = k"
    using k by (rule repad)
  have "(if length body mod 4 \<noteq> 0
         then body @ replicate (4 - length body mod 4) (CHR ''='') else body) = b64encode bs"
    using pad by (auto simp: enc split: if_splits)
  then have "is_valid_base64 body"
    by (simp add: is_valid_base64_def Let_def b64decode_b64encode)
  then show ?thesis
    by (simp add: enc rstrip_pad_append [OF body])
qed

lemma a2b_char_None: "a2b_char c = None \<longleftrightarrow> c \<notin> set b64_table"
  by (simp add: a2b_char_def index_of_None)

lemma a2b_loop_rejects:
  "c \<in> set s \<Longrightarrow> c \<notin> set b64_table \<Longrightarrow> c \<noteq> CHR ''='' \<Longrightarrow>
   isl (a2b_loop quad_pos leftchar pads padding_started bin_data s)"
proof (induction s arbitrary: quad_pos leftchar pads padding_started bin_data)
  case Nil
  then show ?case by simp
next
  case (Cons x xs)
  show ?case
  proof (cases "x = c")
    case True
    then show ?thesis
      using Cons.prems by (simp add: a2b_char_None [THEN iffD2])
  next
    case False
    then have "c \<in> set xs" using Cons.prems by simp
    then have ih: "\<And>q l p st acc. isl (a2b_loop q l p st acc xs)"
      using Cons.IH Cons.prems by blast
    have "xs \<noteq> []" using \<open>c \<in> set xs\<close> by auto
    then show ?thesis
      by (auto simp: ih split: option.splits)
  qed
qed

lemma is_valid_base64_rejects:
  assumes "c \<in> set s" "c \<notin> set b64_table" "c \<noteq> CHR ''=''"
  shows "\<not> is_valid_base64 s"
proof -
  have "isl (b64decode_validate (s @ pad))" for pad
  proof -
    have "c \<in> set (s @ pad)" using assms(1) by simp
    then have "isl (a2b_loop 0 0 0 False [] (s @ pad))"
      using assms(2,3) by (rule a2b_loop_rejects)
    then show ?thesis
      by (simp add: b64decode_validate_def a2b_base64_strict_def)
  qed
  from this [of "[]"] this [of "replicate (4 - length s mod 4) (CHR ''='')"]
  show ?thesis
    by (auto simp: is_valid_base64_def Let_def split: sum.splits)
qed

text \<open>
  Claim C9. \<open>is_valid_base64\<close> accepts the base64 encoding of every byte sequence,
  both as produced by the encoder (with its trailing \<open>=\<close> padding) and with that
  padding stripped; and it rejects every string that holds a character which is
  neither one of the 64 characters of the alphabet nor the padding character \<open>=\<close>.
\<close>

theorem is_valid_base64_accepts_encodings_rejects_bad_chars:
  "is_valid_base64 (b64encode bs)
   \<and> is_valid_base64 (rstrip_pad (b64encode bs))
   \<and> ((\<exists>c \<in> set s. c \<notin> set b64_table \<and> c \<noteq> CHR ''='') \<longrightarrow> \<not> is_valid_base64 s)"
  using is_valid_b64encode is_valid_rstrip_b64encode is_valid_base64_rejects by blast

theorem is_valid_base64_accepts_encodings_rejects_bad_chars_witness:
  "b64encode [0x61, 0x62] = ''YWI=''
   \<and> is_valid_base64 ''YWI=''
   \<and> rstrip_pad ''YWI='' = ''YWI''
   \<and> is_valid_base64 ''YWI''
   \<and> (\<exists>c \<in> set ''test_data''. c \<notin> set b64_table \<and> c \<noteq> CHR ''='')
   \<and> \<not> is_valid_base64 ''test_data''"
proof -
  have enc: "b64encode [0x61, 0x62] = ''YWI=''"
    by code_simp
  have strip: "rstrip_pad ''YWI='' = ''YWI''"
    by (simp add: rstrip_pad_def)
  have bad: "\<exists>c \<in> set ''test_data''. c \<notin> set b64_table \<and> c \<noteq> CHR ''=''"
    by (simp add: b64_table_def)
  show ?thesis
    using is_valid_base64_accepts_encodings_rejects_bad_chars [of "[0x61, 0x62]" "''test_data''"]
    by (simp only: enc strip bad simp_thms)
qed

section \<open>Properties of the image normalizer\<close>

lemma split1_at_first:
  assumes "sep \<notin> set before"
  shows "split1 sep (before @ sep # after) = [before, after]"
proof -
  have other: "c \<noteq> sep" if "c \<in> set before" for c
    using that assms by auto
  have "dropWhile (\<lambda>c. c \<noteq> sep) (before @ sep # after) = sep # after"
    using other by (simp add: dropWhile_append2)
  moreover have "takeWhile (\<lambda>c. c \<noteq> sep) (before @ sep # after) = before"
    using other by (simp add: takeWhile_append2)
  ultimately show ?thesis
    by (simp add: split1_def)
qed

lemma split1_absent:
  assumes "sep \<notin> set s"
  shows "split1 sep s = [s]"
proof -
  have none: "dropWhile (\<lambda>c. c \<noteq> sep) s = []"
    using assms by (auto simp: dropWhile_eq_Nil_conv)
  show ?thesis
    unfolding split1_def none by simp
qed

lemma startswith_data_image: "startswith (''data:image'' @ s) ''data:image''"
  by simp

text \<open>
  A well-formed data URL \<open>data:image/<fmt>;base64,<payload>\<close> that is not the name
  of a file is taken apart into exactly \<open>(<payload>, image/<fmt>)\<close>; the format may
  hold neither a comma nor a semicolon, the payload is arbitrary.
\<close>

lemma prepare_well_formed_data_url:
  assumes "CHR '','' \<notin> set fmt" and "CHR '';'' \<notin> set fmt"
    and "fs (''data:image/'' @ fmt @ '';base64,'' @ payload) = None"
  shows "prepare_image_for_api guess_type fs (''data:image/'' @ fmt @ '';base64,'' @ payload)
         = Inr (payload, ''image/'' @ fmt)"
proof -
  let ?header = "''data:image/'' @ fmt @ '';base64''"
  have input: "''data:image/'' @ fmt @ '';base64,'' @ payload = ?header @ CHR '','' # payload"
    by simp
  have comma: "split1 (CHR '','') (?header @ CHR '','' # payload) = [?header, payload]"
    using assms(1) by (intro split1_at_first) simp
  have header: "?header = (''data:image/'' @ fmt) @ CHR '';'' # ''base64''"
    by simp
  have semi: "split1 (CHR '';'') ?header = [''data:image/'' @ fmt, ''base64'']"
    unfolding header using assms(2) by (intro split1_at_first) simp
  have colon: "split1 (CHR '':'') (''data:image/'' @ fmt) = [''data'', ''image/'' @ fmt]"
    using split1_at_first [of "CHR '':''" "''data''" "''image/'' @ fmt"] by simp
  have first: "py_index [''data:image/'' @ fmt, ''base64''] 0 = Inr (''data:image/'' @ fmt)"
    and second: "py_index [''data'', ''image/'' @ fmt] 1 = Inr (''image/'' @ fmt)"
    by (simp_all add: py_index_def)
  have "parse_data_url (?header @ CHR '','' # payload) = Inr (payload, ''image/'' @ fmt)"
    unfolding parse_data_url_def comma list.case semi first sum.case colon second ..
  then show ?thesis
    using assms(3) unfolding input by (simp add: prepare_image_for_api_def)
qed

text \<open>
  An input that starts with \<open>data:image\<close> and holds no comma cannot be unpacked
  into header and data; the handler then splits the same input again and indexes the
  missing second part, so the call ends in \<open>IndexError\<close>.
\<close>

lemma data_url_without_comma:
  assumes "CHR '','' \<notin> set image_input" and "startswith image_input ''data:image''"
    and "fs image_input = None"
  shows "prepare_image_for_api guess_type fs image_input
         = Inl (IndexError ''list index out of range'')"
  using assms
  by (simp add: prepare_image_for_api_def parse_data_url_def data_url_fallback_def
      split1_absent py_index_def)

text \<open>
  Claim C7. For an input that is not an existing path and starts with
  \<open>data:image\<close>, a well-formed data URL is returned as \<open>(<payload>, image/<fmt>)\<close>
  (lemma \<open>prepare_well_formed_data_url\<close>), and a header that cannot be parsed should
  fall back to the text after the first comma with \<open>image/jpeg\<close>. The source does
  not do the second part: on \<open>data:image/png;base64\<close>, which has no comma, the
  fallback itself raises \<open>IndexError\<close> and nothing is returned.
\<close>

theorem prepare_data_url_without_comma_raises:
  "prepare_image_for_api guess_type_sample Map.empty ''data:image/png;base64''
   = Inl (IndexError ''list index out of range'')"
  by (simp add: prepare_image_for_api_def parse_data_url_def data_url_fallback_def
      split1_def py_index_def)

text \<open>
  Claim C6, as amended. For every existing readable file: when the library's guess
  raises on the path, the normalizer raises \<open>ValueError\<close> with the text
  \<open>Failed to encode file <path>: <cause>\<close>; otherwise it returns the base64
  encoding of the file's bytes, which decodes to exactly those bytes, together with
  the guessed type when that starts with \<open>image/\<close>, and \<open>image/jpeg\<close> when no
  type is guessed or the guessed type is not an image type. A returned type always
  starts with \<open>image/\<close>, and the format validator maps it into the supported set;
  the normalizer alone does not.
\<close>

theorem prepare_readable_file:
  assumes "fs path = Some (Readable content)"
  shows
    "(\<forall>guessed. guess_type path = Inr guessed \<longrightarrow>
        prepare_image_for_api guess_type fs path =
          Inr (b64encode content,
               (case guessed of
                  None \<Rightarrow> ''image/jpeg''
                | Some t \<Rightarrow> if startswith t ''image/'' then t else ''image/jpeg'')))
     \<and> (\<forall>e. guess_type path = Inl e \<longrightarrow>
        prepare_image_for_api guess_type fs path =
          Inl (ValueError (''Failed to encode file '' @ path @ '': '' @ e)))
     \<and> b64decode_validate (b64encode content) = Inr content
     \<and> (\<forall>b m. prepare_image_for_api guess_type fs path = Inr (b, m) \<longrightarrow>
          b = b64encode content \<and> startswith m ''image/''
          \<and> validate_image_format m \<in> supported_formats)"
proof (cases "guess_type path")
  case (Inl e)
  then show ?thesis
    using assms
    by (simp add: prepare_image_for_api_def encode_file_to_base64_def b64decode_b64encode)
next
  case (Inr guessed)
  have "prepare_image_for_api guess_type fs path =
          Inr (b64encode content,
               (case guessed of
                  None \<Rightarrow> ''image/jpeg''
                | Some t \<Rightarrow> if startswith t ''image/'' then t else ''image/jpeg''))"
    using assms Inr
    by (auto simp: prepare_image_for_api_def encode_file_to_base64_def Let_def
        split: option.splits)
  then show ?thesis
    using Inr
    by (auto simp: b64decode_b64encode validate_image_format_supported split: option.splits)
qed

lemma encode_sample: "b64encode [1, 2, 3] = ''AQID''"
  by code_simp

theorem prepare_readable_file_witness:
  "fs_sample ''photo.gif'' = Some (Readable [1, 2, 3])
   \<and> prepare_image_for_api guess_type_sample fs_sample ''photo.gif'' = Inr (''AQID'', ''image/gif'')
   \<and> b64decode_validate ''AQID'' = Inr [1, 2, 3]
   \<and> validate_image_format ''image/gif'' \<in> supported_formats
   \<and> fs_sample ''//[x/a.png'' = Some (Readable [1, 2, 3])
   \<and> prepare_image_for_api guess_type_sample fs_sample ''//[x/a.png''
       = Inl (ValueError ''Failed to encode file //[x/a.png: Invalid IPv6 URL'')"
proof -
  have gif: "fs_sample ''photo.gif'' = Some (Readable [1, 2, 3])"
    and png: "fs_sample ''//[x/a.png'' = Some (Readable [1, 2, 3])"
    by (simp_all add: fs_sample_def)
  have guess: "guess_type_sample ''photo.gif'' = Inr (Some ''image/gif'')"
    and raises: "guess_type_sample ''//[x/a.png'' = Inl ''Invalid IPv6 URL''"
    by (simp_all add: guess_type_sample_def)
  note at_gif = prepare_readable_file [where fs = fs_sample and path = "''photo.gif''"
      and guess_type = guess_type_sample, OF gif]
  note at_png = prepare_readable_file [where fs = fs_sample and path = "''//[x/a.png''"
      and guess_type = guess_type_sample, OF png]
  have one: "prepare_image_for_api guess_type_sample fs_sample ''photo.gif''
      = Inr (''AQID'', ''image/gif'')"
    using at_gif [THEN conjunct1, rule_format, OF guess]
    by (simp add: encode_sample del: b64encode.simps)
  have two: "b64decode_validate ''AQID'' = Inr [1, 2, 3]"
    using at_gif [THEN conjunct2, THEN conjunct2, THEN conjunct1]
    by (simp add: encode_sample del: b64encode.simps)
  have three: "validate_image_format ''image/gif'' \<in> supported_formats"
    using at_gif [THEN conjunct2, THEN conjunct2, THEN conjunct2, rule_format, OF one]
    by (rule conjunct2 [THEN conjunct2])
  have four: "prepare_image_for_api guess_type_sample fs_sample ''//[x/a.png''
       = Inl (ValueError ''Failed to encode file //[x/a.png: Invalid IPv6 URL'')"
    using at_png [THEN conjunct2, THEN conjunct1, rule_format, OF raises]
    by simp
  from gif png one two three four show ?thesis
    by blast
qed

text \<open>
  Claim C6, as stated, fails: for a readable file \<open>photo.gif\<close> the normalizer
  returns the type \<open>image/gif\<close>, which is not one of the three supported types.
\<close>

theorem prepare_gif_file_counterexample:
  "fs_sample ''photo.gif'' = Some (Readable [1, 2, 3])
   \<and> prepare_image_for_api guess_type_sample fs_sample ''photo.gif'' = Inr (''AQID'', ''image/gif'')
   \<and> ''image/gif'' \<notin> supported_formats"
  by (simp add: fs_sample_def prepare_image_for_api_def encode_file_to_base64_def
      guess_type_sample_def encode_sample supported_formats_def del: b64encode.simps)

section \<open>Properties of the client\<close>

lemma valid_sample: "is_valid_base64 ''ZmFrZV9pbWFnZV9kYXRh''"
  by code_simp

lemma invalid_sample: "\<not> is_valid_base64 ''test_data''"
  by code_simp

lemma validate_png: "validate_image_format ''image/png'' = ''image/png''"
  by (simp add: validate_image_format_def Let_def lower_def lower_char_def supported_formats_def)

lemma show_int_samples: "show_int 500 = ''500''" "show_int 401 = ''401''"
  by (simp_all add: show_int_def)

lemma first_attempt: "[0..<5] = 0 # [1..<5::nat]"
  by (simp add: upt_rec)

lemma requests_append: "requests (tr @ tr') = requests tr @ requests tr'"
  by (induction tr rule: requests.induct) simp_all

lemma sleeps_append: "sleeps (tr @ tr') = sleeps tr @ sleeps tr'"
  by (induction tr rule: sleeps.induct) simp_all

lemma run_attempt_retryable:
  "retryable outcome \<Longrightarrow> run_attempt outcome = Continue (RuntimeError (failure_msg outcome))"
  by (cases outcome) (simp_all add: Let_def)

text \<open>
  A run of attempts that all fail with a retryable failure, and whose delays can all
  be computed: each posts the request and, unless it is the last attempt of the
  call, sleeps; the loop then goes on with what is left, holding the error of the
  last of them.
\<close>

lemma retry_loop_append:
  assumes "\<forall>a \<in> set attempts. retryable (post a)"
    and "\<forall>a \<in> set attempts. int a < max_retries - 1 \<longrightarrow> a < 1024"
  shows "retry_loop post req max_retries retry_delay (attempts @ rest) last_error tr =
     retry_loop post req max_retries retry_delay rest
       (if attempts = [] then last_error
        else Some (RuntimeError (failure_msg (post (last attempts)))))
       (tr @ concat (map (\<lambda>a. Post req #
          (if int a < max_retries - 1 then [Sleep (times_pow2 retry_delay a)] else []))
          attempts))"
  using assms
proof (induction attempts arbitrary: last_error tr)
  case Nil
  show ?case by simp
next
  case (Cons a as)
  from Cons.prems have a: "run_attempt (post a) = Continue (RuntimeError (failure_msg (post a)))"
    by (simp add: run_attempt_retryable)
  from Cons.prems have small: "int a < max_retries - 1 \<Longrightarrow> a < 1024"
    by simp
  from Cons.prems have as: "\<forall>a \<in> set as. retryable (post a)"
      "\<forall>a \<in> set as. int a < max_retries - 1 \<longrightarrow> a < 1024"
    by simp_all
  note ih = Cons.IH [OF as]
  show ?case
  proof (cases "int a < max_retries - 1")
    case True
    with small have "backoff_delay retry_delay a = Inr (times_pow2 retry_delay a)"
      by (simp add: backoff_delay_def)
    with True show ?thesis
      by (simp add: a ih)
  next
    case False
    then show ?thesis
      by (simp add: a ih)
  qed
qed

lemma backoff_trace_upt:
  assumes "0 < n"
  shows "concat (map (\<lambda>a. Post req #
            (if int a < int n - 1 then [Sleep (times_pow2 retry_delay a)] else [])) [0..<n])
         = backoff_trace req retry_delay n"
proof -
  obtain m where n: "n = Suc m"
    using assms by (cases n) simp_all
  have eq: "map (\<lambda>a. Post req #
            (if a < m then [Sleep (times_pow2 retry_delay a)] else [])) [0..<m]
      = map (\<lambda>a. [Post req, Sleep (times_pow2 retry_delay a)]) [0..<m]"
    by (rule map_cong) simp_all
  show ?thesis
    by (simp add: n backoff_trace_def eq)
qed

lemma requests_backoff_trace:
  "0 < n \<Longrightarrow> requests (backoff_trace req retry_delay n) = replicate n req"
proof -
  assume "0 < n"
  then obtain m where n: "n = Suc m"
    by (cases n) simp_all
  have "requests (concat (map (\<lambda>a. [Post req, Sleep (times_pow2 retry_delay a)]) [k..<k + j]))
      = replicate j req" for k j
    by (induction j arbitrary: k) (simp_all add: requests_append replicate_append_same)
  from this [of 0 m] show ?thesis
    by (simp add: n backoff_trace_def requests_append replicate_append_same)
qed

lemma sleeps_backoff_trace:
  "sleeps (backoff_trace req retry_delay n) = map (times_pow2 retry_delay) [0..<n - 1]"
proof -
  have "sleeps (concat (map (\<lambda>a. [Post req, Sleep (times_pow2 retry_delay a)]) [k..<k + j]))
      = map (times_pow2 retry_delay) [k..<k + j]" for k j
    by (induction j arbitrary: k) (simp_all add: sleeps_append)
  from this [of 0 "n - 1"] show ?thesis
    by (simp add: backoff_trace_def sleeps_append)
qed

lemma finite_delays:
  assumes "\<bar>r\<bar> * 2 ^ (n - 2) < 2 ^ 1024"
  shows "map (times_pow2 (Finite r)) [0..<n - 1] = map (\<lambda>a. Finite (r * 2 ^ a)) [0..<n - 1]"
proof (rule map_cong)
  show "[0..<n - 1] = [0..<n - 1]" ..
next
  fix a assume "a \<in> set [0..<n - 1]"
  then have "a \<le> n - 2" by simp
  then have "(2::real) ^ a \<le> 2 ^ (n - 2)"
    by (simp add: power_increasing)
  then have "\<bar>r\<bar> * 2 ^ a \<le> \<bar>r\<bar> * 2 ^ (n - 2)"
    by (simp add: mult_left_mono)
  then have "\<bar>r * 2 ^ a\<bar> < 2 ^ 1024"
    using assms by (simp add: abs_mult)
  then have "r * 2 ^ a < 2 ^ 1024" and "- (2 ^ 1024) < r * 2 ^ a"
    by linarith+
  then show "times_pow2 (Finite r) a = Finite (r * 2 ^ a)"
    by (simp add: times_pow2_def)
qed

lemma positive_delays_increasing:
  assumes "0 < r"
  shows "sorted_wrt float_less (map (\<lambda>a. Finite (r * 2 ^ a)) [0..<n])"
proof -
  have "r * 2 ^ i < r * 2 ^ j" if "i < j" for i j :: nat
  proof -
    have "(2::real) ^ i < 2 ^ j"
      using that by (simp add: power_strict_increasing)
    then show ?thesis
      using assms by simp
  qed
  then show ?thesis
    by (simp add: sorted_wrt_iff_nth_less)
qed

lemma startswith_append: "startswith (p @ s) p"
  by (induction p) simp_all

lemma contains_prefix: "contains (p @ s) p"
proof (cases "p @ s")
  case Nil
  then show ?thesis by simp
next
  case (Cons a list)
  have "startswith (p @ s) p" by (rule startswith_append)
  then show ?thesis by (simp add: Cons)
qed

lemma status_error_msg_marker: "contains (status_error_msg status_code body) ''GLM API error''"
proof -
  have "status_error_msg status_code body = ''GLM API error'' @ drop 13 (status_error_msg status_code body)"
    by (simp add: status_error_msg_def)
  then show ?thesis
    by (metis contains_prefix)
qed

text \<open>
  Claim C2, as amended. Let the configuration hold a key and a base URL and the
  image be valid base64, so that the loop is reached; let \<open>retry_delay\<close> be a
  finite float \<open>r\<close> whose largest delay \<open>r * 2 ^ (max_retries - 2)\<close> does not
  overflow. For every \<open>max_retries\<close> from 1 to 1025, when every attempt fails with
  a retryable failure (an error status other than 401, 403 and 429, a timeout, a
  network error or any other exception), the client does exactly this, in this
  order: it posts the request, and for each further attempt it first sleeps
  \<open>r * 2 ^ attempt\<close> (\<open>attempt\<close> being the index of the attempt that just
  failed) and then posts again; so there are \<open>max_retries\<close> requests, a sleep
  between any two consecutive ones and none after the last. It then raises the error
  captured at the last attempt. The delays are strictly increasing when \<open>r\<close> is
  positive, and the message contains \<open>GLM API error\<close> when the last failure was
  an error status.
\<close>

theorem retries_exhausted:
  assumes "GLM_API_KEY cfg = Some key" and "key \<noteq> []" and "GLM_API_BASE cfg \<noteq> []"
    and "is_valid_base64 image_base64"
    and "1 \<le> max_retries" and "max_retries \<le> 1025"
    and "\<forall>i < nat max_retries. retryable (post i)"
    and "retry_delay = Finite r" and "\<bar>r\<bar> * 2 ^ (nat max_retries - 2) < 2 ^ 1024"
  shows
    "call_glm_vision_api cfg post image_base64 prompt mime_type max_tok max_retries retry_delay =
       (Inl (RuntimeError (failure_msg (post (nat max_retries - 1)))),
        backoff_trace
          (build_request cfg image_base64 prompt (validate_image_format mime_type) max_tok)
          retry_delay (nat max_retries))
     \<and> requests (snd (call_glm_vision_api cfg post image_base64 prompt mime_type max_tok
          max_retries retry_delay)) =
         replicate (nat max_retries)
           (build_request cfg image_base64 prompt (validate_image_format mime_type) max_tok)
     \<and> sleeps (snd (call_glm_vision_api cfg post image_base64 prompt mime_type max_tok
          max_retries retry_delay)) =
         map (\<lambda>attempt. Finite (r * 2 ^ attempt)) [0..<nat max_retries - 1]
     \<and> (0 < r \<longrightarrow>
          sorted_wrt float_less (sleeps (snd (call_glm_vision_api cfg post image_base64 prompt
            mime_type max_tok max_retries retry_delay))))
     \<and> (\<forall>status_code body. post (nat max_retries - 1) = HTTPStatusError status_code body \<longrightarrow>
          contains (failure_msg (post (nat max_retries - 1))) ''GLM API error'')"
proof -
  let ?n = "nat max_retries"
  let ?req = "build_request cfg image_base64 prompt (validate_image_format mime_type) max_tok"
  have n: "0 < ?n" "max_retries = int ?n"
    using assms(5) by simp_all
  have all: "\<forall>a \<in> set [0..<?n]. retryable (post a)"
    using assms(7) by simp
  have small: "\<forall>a \<in> set [0..<?n]. int a < max_retries - 1 \<longrightarrow> a < 1024"
    using assms(6) by auto
  have ne: "[0..<?n] \<noteq> []" and last: "last [0..<?n] = ?n - 1"
    using n(1) by (simp_all add: last_upt)
  have trace: "concat (map (\<lambda>a. Post ?req #
            (if int a < max_retries - 1 then [Sleep (times_pow2 retry_delay a)] else []))
            [0..<?n]) = backoff_trace ?req retry_delay ?n"
    using backoff_trace_upt [OF n(1), of ?req retry_delay] n(2) by simp
  have call: "call_glm_vision_api cfg post image_base64 prompt mime_type max_tok max_retries
        retry_delay =
       (Inl (RuntimeError (failure_msg (post (?n - 1)))), backoff_trace ?req retry_delay ?n)"
    using retry_loop_append [OF all small, of ?req retry_delay "[]" None no_trace] ne
    by (simp add: call_glm_vision_api_def assms(1-4) Let_def last trace raise_last_error_def
        no_trace_def)
  have posted: "requests (snd (call_glm_vision_api cfg post image_base64 prompt mime_type max_tok
        max_retries retry_delay)) = replicate ?n ?req"
    by (simp add: call requests_backoff_trace [OF n(1)])
  have "sleeps (snd (call_glm_vision_api cfg post image_base64 prompt mime_type max_tok
        max_retries retry_delay)) = map (times_pow2 retry_delay) [0..<?n - 1]"
    by (simp add: call sleeps_backoff_trace)
  also have "\<dots> = map (\<lambda>attempt. Finite (r * 2 ^ attempt)) [0..<?n - 1]"
    unfolding assms(8) by (rule finite_delays [OF assms(9)])
  finally have slept: "sleeps (snd (call_glm_vision_api cfg post image_base64 prompt mime_type
        max_tok max_retries retry_delay))
      = map (\<lambda>attempt. Finite (r * 2 ^ attempt)) [0..<?n - 1]" .
  have increasing: "sorted_wrt float_less (sleeps (snd (call_glm_vision_api cfg post
        image_base64 prompt mime_type max_tok max_retries retry_delay)))"
    if "0 < r"
    unfolding slept using that by (rule positive_delays_increasing)
  have marker: "contains (failure_msg (post (?n - 1))) ''GLM API error''"
    if "post (?n - 1) = HTTPStatusError status_code body" for status_code body
    unfolding that by (simp add: status_error_msg_marker)
  from call posted slept increasing marker show ?thesis
    by blast
qed

theorem retries_exhausted_witness:
  "call_glm_vision_api cfg_sample always_500 ''ZmFrZV9pbWFnZV9kYXRh'' ''Test prompt'' ''image/png''
       1000 3 (Finite 2) =
     (Inl (RuntimeError ''GLM API error: 500 - Internal server error''),
      [Post (build_request cfg_sample ''ZmFrZV9pbWFnZV9kYXRh'' ''Test prompt'' ''image/png'' 1000),
       Sleep (Finite 2),
       Post (build_request cfg_sample ''ZmFrZV9pbWFnZV9kYXRh'' ''Test prompt'' ''image/png'' 1000),
       Sleep (Finite 4),
       Post (build_request cfg_sample ''ZmFrZV9pbWFnZV9kYXRh'' ''Test prompt'' ''image/png'' 1000)])
   \<and> sorted_wrt float_less (sleeps (snd (call_glm_vision_api cfg_sample always_500
        ''ZmFrZV9pbWFnZV9kYXRh'' ''Test prompt'' ''image/png'' 1000 3 (Finite 2))))
   \<and> contains ''GLM API error: 500 - Internal server error'' ''GLM API error''"
proof -
  have key: "GLM_API_KEY cfg_sample = Some ''test-api-key''" "''test-api-key'' \<noteq> []"
    and base: "GLM_API_BASE cfg_sample \<noteq> []"
    by (simp_all add: cfg_sample_def)
  have tries: "(1::int) \<le> 3" "(3::int) \<le> 1025" by simp_all
  have fails: "\<forall>i < nat 3. retryable (always_500 i)"
    by (simp add: always_500_def)
  have msg: "failure_msg (always_500 k) = ''GLM API error: 500 - Internal server error''" for k
    by (simp add: always_500_def status_error_msg_def show_int_samples)
  have last: "always_500 (nat 3 - 1) = HTTPStatusError 500 (JsonMessage ''Internal server'')"
    by (simp add: always_500_def)
  have delays: "times_pow2 (Finite 2) 0 = Finite 2" "times_pow2 (Finite 2) (Suc 0) = Finite 4"
    unfolding times_pow2_def by simp_all
  have trace: "backoff_trace req (Finite 2) (nat 3)
      = [Post req, Sleep (Finite 2), Post req, Sleep (Finite 4), Post req]" for req
    by (simp add: backoff_trace_def upt_rec delays)
  have finite: "Finite 2 = Finite 2" and small: "\<bar>2::real\<bar> * 2 ^ (nat 3 - 2) < 2 ^ 1024"
    and positive: "(0::real) < 2"
    by simp_all
  note inst = retries_exhausted [OF key base valid_sample tries fails finite small,
      of "''Test prompt''" "''image/png''" 1000]
  have one: "call_glm_vision_api cfg_sample always_500 ''ZmFrZV9pbWFnZV9kYXRh'' ''Test prompt''
       ''image/png'' 1000 3 (Finite 2) =
     (Inl (RuntimeError ''GLM API error: 500 - Internal server error''),
      [Post (build_request cfg_sample ''ZmFrZV9pbWFnZV9kYXRh'' ''Test prompt'' ''image/png'' 1000),
       Sleep (Finite 2),
       Post (build_request cfg_sample ''ZmFrZV9pbWFnZV9kYXRh'' ''Test prompt'' ''image/png'' 1000),
       Sleep (Finite 4),
       Post (build_request cfg_sample ''ZmFrZV9pbWFnZV9kYXRh'' ''Test prompt'' ''image/png'' 1000)])"
    using inst [THEN conjunct1] unfolding msg trace validate_png .
  have two: "sorted_wrt float_less (sleeps (snd (call_glm_vision_api cfg_sample always_500
        ''ZmFrZV9pbWFnZV9kYXRh'' ''Test prompt'' ''image/png'' 1000 3 (Finite 2))))"
    using inst [THEN conjunct2, THEN conjunct2, THEN conjunct2, THEN conjunct1, rule_format,
        OF positive] .
  have three: "contains ''GLM API error: 500 - Internal server error'' ''GLM API error''"
    using inst [THEN conjunct2, THEN conjunct2, THEN conjunct2, THEN conjunct2, rule_format,
        OF last] unfolding msg .
  from one two three show ?thesis
    by blast
qed

lemma length_requests_attempts:
  "length (requests (concat (map (\<lambda>a. Post req #
      (if int a < max_retries - 1 then [Sleep (times_pow2 retry_delay a)] else [])) attempts)))
   = length attempts"
  by (induction attempts) simp_all

text \<open>
  With more than 1025 attempts to make, the delay after the attempt with index 1024
  cannot be computed: the fifth conjunct of the counterexample below.
\<close>

lemma overflow_after_1025_posts:
  "fst (call_glm_vision_api cfg_sample always_500 ''ZmFrZV9pbWFnZV9kYXRh'' ''Test prompt''
        ''image/png'' 1000 1026 (Finite 2))
     = Inl (OverflowError ''int too large to convert to float'')
   \<and> length (requests (snd (call_glm_vision_api cfg_sample always_500 ''ZmFrZV9pbWFnZV9kYXRh''
        ''Test prompt'' ''image/png'' 1000 1026 (Finite 2)))) = 1025"
proof -
  let ?req = "build_request cfg_sample ''ZmFrZV9pbWFnZV9kYXRh'' ''Test prompt''
      (validate_image_format ''image/png'') 1000"
  have split: "[0..<1026] = [0..<1024] @ [1024, 1025::nat]"
    using upt_add_eq_append [of 0 1024 2] by (simp add: upt_rec [of 1024] upt_rec [of 1025])
  have all: "\<forall>a \<in> set [0..<1024]. retryable (always_500 a)"
    by (simp add: always_500_def)
  have small: "\<forall>a \<in> set [0..<1024]. int a < 1026 - 1 \<longrightarrow> a < 1024"
    by simp
  have ne: "[0..<1024] \<noteq> ([]::nat list)"
    by simp
  have key: "GLM_API_KEY cfg_sample = Some ''test-api-key''"
    and base: "GLM_API_BASE cfg_sample \<noteq> []"
    by (simp_all add: cfg_sample_def)
  have rest: "retry_loop always_500 ?req 1026 (Finite 2) [1024, 1025] last_error tr
      = (Inl (OverflowError ''int too large to convert to float''), tr @ [Post ?req])"
    for last_error tr
    by (simp add: always_500_def Let_def backoff_delay_def)
  have "call_glm_vision_api cfg_sample always_500 ''ZmFrZV9pbWFnZV9kYXRh'' ''Test prompt''
        ''image/png'' 1000 1026 (Finite 2)
      = (Inl (OverflowError ''int too large to convert to float''),
         concat (map (\<lambda>a. Post ?req #
           (if int a < 1026 - 1 then [Sleep (times_pow2 (Finite 2) a)] else [])) [0..<1024])
         @ [Post ?req])"
    using ne
    by (simp add: call_glm_vision_api_def key base valid_sample Let_def split
        retry_loop_append [OF all small] rest no_trace_def del: retry_loop.simps)
  then show ?thesis
    using length_requests_attempts [of ?req 1026 "Finite 2" "[0..<1024]"]
    by (simp add: requests_append)
qed

text \<open>
  Claim C2, as stated, fails in four ways. When both attempts time out, the error
  raised is the timeout's, and its message does not contain \<open>GLM API error\<close>. With a
  base delay of zero the two delays between three failing attempts are both zero,
  not strictly increasing. With a base delay of \<open>2 ^ 1023\<close> the second and the
  third delay are both infinite. And with 1026 attempts to make, the call ends in
  \<open>OverflowError\<close> after 1025 requests.
\<close>

theorem retries_exhausted_counterexample:
  "retryable (always_timeout 0) \<and> retryable (always_timeout 1)
   \<and> call_glm_vision_api cfg_sample always_timeout ''ZmFrZV9pbWFnZV9kYXRh'' ''Test prompt''
        ''image/png'' 1000 2 (Finite 2) =
       (Inl (RuntimeError ''GLM API timeout: timed out''),
        [Post (build_request cfg_sample ''ZmFrZV9pbWFnZV9kYXRh'' ''Test prompt'' ''image/png'' 1000),
         Sleep (Finite 2),
         Post (build_request cfg_sample ''ZmFrZV9pbWFnZV9kYXRh'' ''Test prompt'' ''image/png'' 1000)])
   \<and> \<not> contains ''GLM API timeout: timed out'' ''GLM API error''
   \<and> sleeps (snd (call_glm_vision_api cfg_sample always_500 ''ZmFrZV9pbWFnZV9kYXRh''
        ''Test prompt'' ''image/png'' 1000 3 (Finite 0))) = [Finite 0, Finite 0]
   \<and> \<not> sorted_wrt float_less [Finite 0, Finite 0]
   \<and> sleeps (snd (call_glm_vision_api cfg_sample always_500 ''ZmFrZV9pbWFnZV9kYXRh''
        ''Test prompt'' ''image/png'' 1000 4 (Finite (2 ^ 1023)))) = [Finite (2 ^ 1023), PosInf, PosInf]
   \<and> \<not> sorted_wrt float_less [Finite (2 ^ 1023), PosInf, PosInf]
   \<and> fst (call_glm_vision_api cfg_sample always_500 ''ZmFrZV9pbWFnZV9kYXRh'' ''Test prompt''
        ''image/png'' 1000 1026 (Finite 2))
       = Inl (OverflowError ''int too large to convert to float'')
   \<and> length (requests (snd (call_glm_vision_api cfg_sample always_500 ''ZmFrZV9pbWFnZV9kYXRh''
        ''Test prompt'' ''image/png'' 1000 1026 (Finite 2)))) = 1025"
proof -
  have two: "[0..<2] = [0, 1::nat]" and three: "[0..<3] = [0, 1, 2::nat]"
    and four: "[0..<4] = [0, 1, 2, 3::nat]"
    by (simp_all add: upt_rec)
  have timeouts: "call_glm_vision_api cfg_sample always_timeout ''ZmFrZV9pbWFnZV9kYXRh''
        ''Test prompt'' ''image/png'' 1000 2 (Finite 2) =
       (Inl (RuntimeError ''GLM API timeout: timed out''),
        [Post (build_request cfg_sample ''ZmFrZV9pbWFnZV9kYXRh'' ''Test prompt'' ''image/png'' 1000),
         Sleep (Finite 2),
         Post (build_request cfg_sample ''ZmFrZV9pbWFnZV9kYXRh'' ''Test prompt'' ''image/png'' 1000)])"
    by (simp add: call_glm_vision_api_def valid_sample validate_png Let_def two always_timeout_def
        backoff_delay_def times_pow2_def raise_last_error_def no_trace_def cfg_sample_def)
  have unmarked: "\<not> contains ''GLM API timeout: timed out'' ''GLM API error''"
    by simp
  have zero: "sleeps (snd (call_glm_vision_api cfg_sample always_500 ''ZmFrZV9pbWFnZV9kYXRh''
        ''Test prompt'' ''image/png'' 1000 3 (Finite 0))) = [Finite 0, Finite 0]"
    by (simp add: call_glm_vision_api_def valid_sample Let_def three always_500_def
        backoff_delay_def times_pow2_def raise_last_error_def no_trace_def cfg_sample_def
        sleeps_append)
  have big: "times_pow2 (Finite (2 ^ 1023)) 0 = Finite (2 ^ 1023)"
      "times_pow2 (Finite (2 ^ 1023)) (Suc 0) = PosInf"
      "times_pow2 (Finite (2 ^ 1023)) 2 = PosInf"
    unfolding times_pow2_def by simp_all
  have infinite: "sleeps (snd (call_glm_vision_api cfg_sample always_500 ''ZmFrZV9pbWFnZV9kYXRh''
        ''Test prompt'' ''image/png'' 1000 4 (Finite (2 ^ 1023))))
      = [Finite (2 ^ 1023), PosInf, PosInf]"
    by (simp add: call_glm_vision_api_def valid_sample Let_def four always_500_def
        backoff_delay_def big raise_last_error_def no_trace_def cfg_sample_def
        sleeps_append del: power_numeral)
  have flat: "\<not> sorted_wrt float_less [Finite 0, Finite 0]"
      "\<not> sorted_wrt float_less [Finite (2 ^ 1023), PosInf, PosInf]"
    by simp_all
  from timeouts unmarked zero infinite flat overflow_after_1025_posts show ?thesis
    by (simp only: always_timeout_def retryable.simps simp_thms)
qed

text \<open>
  Claim C3. Let the configuration hold a key and a base URL, the image be valid
  base64 and \<open>max_retries \<ge> 1\<close>, so that there is a first attempt. If that attempt
  fails with status 401, 403 or 429, the client has posted exactly one request, has
  not slept, and raises the error built from that response.
\<close>

theorem blocked_status_stops_at_once:
  assumes "GLM_API_KEY cfg = Some key" and "key \<noteq> []" and "GLM_API_BASE cfg \<noteq> []"
    and "is_valid_base64 image_base64"
    and "1 \<le> max_retries"
    and "post 0 = HTTPStatusError status_code body"
    and "status_code \<in> {401, 403, 429}"
  shows
    "call_glm_vision_api cfg post image_base64 prompt mime_type max_tok max_retries retry_delay =
       (Inl (RuntimeError (status_error_msg status_code body)),
        [Post (build_request cfg image_base64 prompt (validate_image_format mime_type) max_tok)])
     \<and> requests (snd (call_glm_vision_api cfg post image_base64 prompt mime_type max_tok
          max_retries retry_delay)) =
         [build_request cfg image_base64 prompt (validate_image_format mime_type) max_tok]
     \<and> sleeps (snd (call_glm_vision_api cfg post image_base64 prompt mime_type max_tok
          max_retries retry_delay)) = []"
proof -
  have "[0..<nat max_retries] = 0 # [1..<nat max_retries]"
    using assms(5) by (simp add: upt_conv_Cons)
  then have "call_glm_vision_api cfg post image_base64 prompt mime_type max_tok max_retries
      retry_delay =
       (Inl (RuntimeError (status_error_msg status_code body)),
        [Post (build_request cfg image_base64 prompt (validate_image_format mime_type) max_tok)])"
    using assms(7)
    by (auto simp: call_glm_vision_api_def assms(1-4,6) Let_def raise_last_error_def no_trace_def)
  then show ?thesis
    by simp
qed

theorem blocked_status_stops_at_once_witness:
  "call_glm_vision_api cfg_sample always_401 ''ZmFrZV9pbWFnZV9kYXRh'' ''Test prompt'' ''image/png''
       1000 5 (Finite 2) =
     (Inl (RuntimeError ''GLM API error: 401 - Unauthorized''),
      [Post (build_request cfg_sample ''ZmFrZV9pbWFnZV9kYXRh'' ''Test prompt'' ''image/png'' 1000)])"
proof -
  have key: "GLM_API_KEY cfg_sample = Some ''test-api-key''" "''test-api-key'' \<noteq> []"
    and base: "GLM_API_BASE cfg_sample \<noteq> []"
    by (simp_all add: cfg_sample_def)
  have tries: "(1::int) \<le> 5" by simp
  have first: "always_401 0 = HTTPStatusError 401 (NotJson ''Unauthorized'')"
    by (simp add: always_401_def)
  have blocked: "(401::int) \<in> {401, 403, 429}" by simp
  have msg: "status_error_msg 401 (NotJson ''Unauthorized'') = ''GLM API error: 401 - Unauthorized''"
    by (simp add: status_error_msg_def show_int_samples)
  from blocked_status_stops_at_once [where post = always_401 and prompt = "''Test prompt''"
      and mime_type = "''image/png''" and max_tok = 1000 and retry_delay = "Finite 2",
      OF key base valid_sample tries first blocked, THEN conjunct1]
  show ?thesis
    unfolding msg validate_png .
qed

text \<open>
  Claim C4. If the configuration holds no key (none, or an empty one), or the image
  is not valid base64, the client raises a \<open>ValueError\<close> without posting a request
  and without sleeping, whatever the other arguments and the transport are.
\<close>

theorem invalid_input_fails_before_network:
  assumes "GLM_API_KEY cfg = None \<or> GLM_API_KEY cfg = Some [] \<or> \<not> is_valid_base64 image_base64"
  shows "\<exists>m. call_glm_vision_api cfg post image_base64 prompt mime_type max_tok max_retries
            retry_delay = (Inl (ValueError m), no_trace)"
  using assms by (auto simp: call_glm_vision_api_def)

theorem invalid_input_fails_before_network_witness:
  "(\<exists>m. call_glm_vision_api (cfg_sample\<lparr>GLM_API_KEY := None\<rparr>) always_ok ''ZmFrZV9pbWFnZV9kYXRh''
           ''Test prompt'' ''image/png'' 1000 5 (Finite 2) = (Inl (ValueError m), no_trace))
   \<and> \<not> is_valid_base64 ''test_data''
   \<and> (\<exists>m. call_glm_vision_api cfg_sample always_ok ''test_data''
           ''Test prompt'' ''image/png'' 1000 5 (Finite 2) = (Inl (ValueError m), no_trace))"
proof -
  have absent: "GLM_API_KEY (cfg_sample\<lparr>GLM_API_KEY := None\<rparr>) = None
      \<or> GLM_API_KEY (cfg_sample\<lparr>GLM_API_KEY := None\<rparr>) = Some []
      \<or> \<not> is_valid_base64 ''ZmFrZV9pbWFnZV9kYXRh''"
    by simp
  have bad: "GLM_API_KEY cfg_sample = None \<or> GLM_API_KEY cfg_sample = Some []
      \<or> \<not> is_valid_base64 ''test_data''"
    by (simp add: invalid_sample)
  show ?thesis
    using invalid_input_fails_before_network [OF absent]
      invalid_input_fails_before_network [OF bad] invalid_sample
    by blast
qed

text \<open>
  Claim C10, as amended. With a key and a base URL in the configuration, valid
  base64 and \<open>max_retries \<le> 0\<close>, the client posts no request, does not sleep, and
  raises \<open>RuntimeError\<close> with the message
  \<open>Failed to call GLM API after maximum retries\<close>.
\<close>

theorem no_attempts_when_max_retries_not_positive:
  assumes "GLM_API_KEY cfg = Some key" and "key \<noteq> []" and "GLM_API_BASE cfg \<noteq> []"
    and "is_valid_base64 image_base64"
    and "max_retries \<le> 0"
  shows
    "call_glm_vision_api cfg post image_base64 prompt mime_type max_tok max_retries retry_delay =
       (Inl (RuntimeError ''Failed to call GLM API after maximum retries''), no_trace)"
  using assms by (simp add: call_glm_vision_api_def Let_def raise_last_error_def)

theorem no_attempts_when_max_retries_not_positive_witness:
  "call_glm_vision_api cfg_sample always_ok ''ZmFrZV9pbWFnZV9kYXRh'' ''Test prompt'' ''image/png''
       1000 0 (Finite 2) =
     (Inl (RuntimeError ''Failed to call GLM API after maximum retries''), no_trace)"
proof -
  have key: "GLM_API_KEY cfg_sample = Some ''test-api-key''" "''test-api-key'' \<noteq> []"
    and base: "GLM_API_BASE cfg_sample \<noteq> []"
    by (simp_all add: cfg_sample_def)
  have none: "(0::int) \<le> 0" by simp
  show ?thesis
    by (rule no_attempts_when_max_retries_not_positive [OF key base valid_sample none])
qed

text \<open>
  Claim C10, as stated, fails: a key and valid base64 are not enough. When the
  environment sets \<open>GLM_API_BASE\<close> to the empty string, the guard on the base URL
  raises \<open>ValueError\<close> before the loop is reached.
\<close>

theorem no_attempts_empty_base_counterexample:
  "GLM_API_KEY cfg_empty_base = Some ''test-api-key''
   \<and> is_valid_base64 ''ZmFrZV9pbWFnZV9kYXRh''
   \<and> call_glm_vision_api cfg_empty_base always_ok ''ZmFrZV9pbWFnZV9kYXRh'' ''Test prompt''
        ''image/png'' 1000 0 (Finite 2) =
       (Inl (ValueError ''GLM_API_BASE environment variable not set''), no_trace)
   \<and> ValueError ''GLM_API_BASE environment variable not set''
       \<noteq> RuntimeError ''Failed to call GLM API after maximum retries''"
  by (simp add: cfg_empty_base_def load_config_def getenv_default_def call_glm_vision_api_def
      valid_sample)

section \<open>Properties of the configuration\<close>

text \<open>
  Claim C5. The claim, the spec and the test \<open>test_call_glm_vision_api_no_api_key\<close>
  (which deletes \<open>GLM_API_KEY\<close> from the environment and expects the call to fail
  for the missing key) all say that the configuration is read from the environment
  at every call. The source does not do that: the module reads the environment when
  it is loaded. In a process started with the key \<open>old-key\<close>, after the key has been
  deleted from the environment the call of the test does not raise for the missing
  key (it goes on to the base64 check, which \<open>test_data\<close> fails), and after the key
  has been changed to \<open>new-key\<close> the next call still sends \<open>Bearer old-key\<close>.
\<close>

theorem environment_change_not_observed:
  "environ (delenv ''GLM_API_KEY'' process_sample) ''GLM_API_KEY'' = None
   \<and> call_in_process (delenv ''GLM_API_KEY'' process_sample) always_ok ''test_data''
        ''test prompt'' ''image/jpeg'' 2048 5 (Finite 2)
       = (Inl (ValueError ''Invalid base64 image data''), no_trace)
   \<and> environ (setenv ''GLM_API_KEY'' ''new-key'' process_sample) ''GLM_API_KEY'' = Some ''new-key''
   \<and> map authorization
        (requests (snd (call_in_process (setenv ''GLM_API_KEY'' ''new-key'' process_sample)
           always_ok ''ZmFrZV9pbWFnZV9kYXRh'' ''Test prompt'' ''image/png'' 1000 5 (Finite 2))))
       = [''Bearer old-key'']"
proof -
  have removed: "call_in_process (delenv ''GLM_API_KEY'' process_sample) always_ok ''test_data''
        ''test prompt'' ''image/jpeg'' 2048 5 (Finite 2)
       = (Inl (ValueError ''Invalid base64 image data''), no_trace)"
    by (simp add: call_in_process_def delenv_def process_sample_def import_server_def
        load_config_def getenv_default_def call_glm_vision_api_def invalid_sample)
  have changed: "map authorization
        (requests (snd (call_in_process (setenv ''GLM_API_KEY'' ''new-key'' process_sample)
           always_ok ''ZmFrZV9pbWFnZV9kYXRh'' ''Test prompt'' ''image/png'' 1000 5 (Finite 2))))
       = [''Bearer old-key'']"
    by (simp add: call_in_process_def setenv_def process_sample_def import_server_def
        load_config_def getenv_default_def call_glm_vision_api_def valid_sample Let_def
        first_attempt always_ok_def no_trace_def build_request_def)
  from removed changed show ?thesis
    by (simp add: delenv_def setenv_def)
qed

section \<open>Properties of the orchestrator\<close>

lemma prepare_sample:
  "prepare_image_for_api guess_type_sample Map.empty ''data:image/png;base64,ZmFrZV9pbWFnZV9kYXRh''
   = Inr (''ZmFrZV9pbWFnZV9kYXRh'', ''image/png'')"
  using prepare_well_formed_data_url [of "''png''" Map.empty "''ZmFrZV9pbWFnZV9kYXRh''"
      guess_type_sample]
  by simp

lemma call_ok_sample:
  "call_glm_vision_api cfg_sample always_ok ''ZmFrZV9pbWFnZV9kYXRh'' prompt ''image/png''
     1000 5 (Finite 2) =
   (Inr ''This is a test analysis response'',
    [Post (build_request cfg_sample ''ZmFrZV9pbWFnZV9kYXRh'' prompt ''image/png'' 1000)])"
proof -
  have key: "GLM_API_KEY cfg_sample = Some ''test-api-key''"
    and base: "GLM_API_BASE cfg_sample \<noteq> []"
    by (simp_all add: cfg_sample_def)
  show ?thesis
    by (simp add: call_glm_vision_api_def key base valid_sample validate_png Let_def first_attempt
        always_ok_def no_trace_def)
qed

text \<open>
  With no sink, or with a sink whose operations never raise, the tool does what
  claim C1 says: it returns a string in every case, the failure string built from
  the exception when the normalizer or the client raises, and the client's answer
  unchanged otherwise.
\<close>

lemma analyze_with_reliable_sink:
  assumes "ctx = None \<or> (\<exists>s. ctx = Some s \<and> (\<forall>m. info s m = None) \<and> (\<forall>m. error s m = None))"
  shows
    "(\<exists>s. fst (analyze_image_with_context cfg guess_type fs post image_data user_context
            max_tok ctx) = Inr s)
     \<and> (\<forall>e. prepare_image_for_api guess_type fs image_data = Inl e \<longrightarrow>
          fst (analyze_image_with_context cfg guess_type fs post image_data user_context
            max_tok ctx) = Inr (''Image analysis failed: '' @ str_of e))
     \<and> (\<forall>image_base64 mime_type e.
          prepare_image_for_api guess_type fs image_data = Inr (image_base64, mime_type)
          \<and> fst (call_glm_vision_api cfg post image_base64 (enhanced_prompt user_context)
                 mime_type max_tok 5 (Finite 2)) = Inl e \<longrightarrow>
          fst (analyze_image_with_context cfg guess_type fs post image_data user_context
            max_tok ctx) = Inr (''Image analysis failed: '' @ str_of e))
     \<and> (\<forall>image_base64 mime_type answer.
          prepare_image_for_api guess_type fs image_data = Inr (image_base64, mime_type)
          \<and> fst (call_glm_vision_api cfg post image_base64 (enhanced_prompt user_context)
                 mime_type max_tok 5 (Finite 2)) = Inr answer \<longrightarrow>
          fst (analyze_image_with_context cfg guess_type fs post image_data user_context
            max_tok ctx) = Inr answer)"
proof -
  have sent: "send ctx n sent = Inr (if ctx = None then sent else sent @ [n])" for n sent
    using assms by (cases n) (auto simp: send_def)
  show ?thesis
  proof (cases "prepare_image_for_api guess_type fs image_data")
    case (Inl e)
    then show ?thesis
      by (simp add: analyze_image_with_context_def analysis_failed_def sent Let_def)
  next
    case (Inr prepared)
    obtain image_base64 mime_type where prepared: "prepared = (image_base64, mime_type)"
      by (cases prepared)
    obtain res tr where call: "call_glm_vision_api cfg post image_base64
        (enhanced_prompt user_context) mime_type max_tok 5 (Finite 2) = (res, tr)"
      by (cases "call_glm_vision_api cfg post image_base64 (enhanced_prompt user_context)
        mime_type max_tok 5 (Finite 2)")
    show ?thesis
      by (cases res)
        (simp_all add: analyze_image_with_context_def analysis_failed_def sent Let_def Inr
          prepared call)
  qed
qed

text \<open>
  Claim C1. The tool should return a string for every input, with or without a
  sink: the failure string when the normalizer or the client raises, the model's
  answer unchanged on success. The source does not do that for every sink. The
  notification of the error is awaited inside the \<open>except\<close> handler, so with a sink
  whose \<open>error\<close> raises, a failure of the normalizer makes the tool raise the sink's
  exception. And the notification of completion is awaited inside the \<open>try\<close>, so
  with a sink whose \<open>info\<close> raises on it, the answer the client returned is
  replaced by the failure string.
\<close>

theorem analyze_image_with_context_failing_sink:
  "prepare_image_for_api guess_type_sample Map.empty ''data:image/png;base64''
     = Inl (IndexError ''list index out of range'')
   \<and> fst (analyze_image_with_context cfg_sample guess_type_sample Map.empty always_ok
          ''data:image/png;base64'' ''Extract text'' 1000 (Some sink_error_fails))
     = Inl (RuntimeError ''sink down'')
   \<and> fst (call_glm_vision_api cfg_sample always_ok ''ZmFrZV9pbWFnZV9kYXRh''
          (enhanced_prompt ''Extract text'') ''image/png'' 1000 5 (Finite 2))
     = Inr ''This is a test analysis response''
   \<and> fst (analyze_image_with_context cfg_sample guess_type_sample Map.empty always_ok
          ''data:image/png;base64,ZmFrZV9pbWFnZV9kYXRh'' ''Extract text'' 1000
          (Some sink_completed_fails))
     = Inr ''Image analysis failed: sink down''"
proof -
  have bad: "prepare_image_for_api guess_type_sample Map.empty ''data:image/png;base64''
      = Inl (IndexError ''list index out of range'')"
    by (rule data_url_without_comma) simp_all
  have raised: "fst (analyze_image_with_context cfg_sample guess_type_sample Map.empty always_ok
          ''data:image/png;base64'' ''Extract text'' 1000 (Some sink_error_fails))
     = Inl (RuntimeError ''sink down'')"
    by (simp add: analyze_image_with_context_def bad analysis_failed_def send_def
        sink_error_fails_def Let_def)
  have replaced: "fst (analyze_image_with_context cfg_sample guess_type_sample Map.empty always_ok
          ''data:image/png;base64,ZmFrZV9pbWFnZV9kYXRh'' ''Extract text'' 1000
          (Some sink_completed_fails))
     = Inr ''Image analysis failed: sink down''"
    by (simp add: analyze_image_with_context_def prepare_sample call_ok_sample
        analysis_failed_def send_def sink_completed_fails_def Let_def)
  from bad raised replaced show ?thesis
    by (simp add: call_ok_sample)
qed

end
